theory Spec2Isabelle
  imports Complex_Main
begin

section \<open>The dynamics-processing effect binding (DynamicsProcessing.cpp)\<close>

text \<open>
  The file under verification is the glue between the host's effect interface and the
  dynamics-processing engine. Everything it calls that lives elsewhere (the engine
  context class, the methods inherited from the effect base classes, the identifiers of
  the effect) is taken as a parameter, so every theorem below holds for any engine.

  The macros \<open>RETURN_IF\<close>, \<open>RETURN_OK_IF\<close>, \<open>RETURN_VALUE_IF\<close> and
  \<open>RETURN_IF_ASTATUS_NOT_OK\<close> come from a header of the effect framework. They are
  written out where they are used: \<open>RETURN_IF (e, x, m)\<close> returns the status with
  exception code \<open>x\<close> and message \<open>m\<close> when \<open>e\<close> holds, \<open>RETURN_OK_IF (e)\<close> returns
  the ok status when \<open>e\<close> holds, \<open>RETURN_VALUE_IF (e, v, m)\<close> returns \<open>v\<close> when \<open>e\<close>
  holds, and \<open>RETURN_IF_ASTATUS_NOT_OK (s, m)\<close> returns the exception code of \<open>s\<close> with
  the message \<open>m\<close> when \<open>s\<close> is not ok.
\<close>

subsection \<open>Status values\<close>

text \<open>
  The exception codes of the interprocess interface (\<open>binder_exception_t\<close>), with
  their numeric values.
\<close>

datatype binder_exception_t =
    EX_NONE
  | EX_SECURITY
  | EX_BAD_PARCELABLE
  | EX_ILLEGAL_ARGUMENT
  | EX_NULL_POINTER
  | EX_ILLEGAL_STATE
  | EX_NETWORK_MAIN_THREAD
  | EX_UNSUPPORTED_OPERATION
  | EX_SERVICE_SPECIFIC
  | EX_PARCELABLE
  | EX_TRANSACTION_FAILED

fun exception_value :: "binder_exception_t \<Rightarrow> int" where
  "exception_value EX_NONE = 0"
| "exception_value EX_SECURITY = - 1"
| "exception_value EX_BAD_PARCELABLE = - 2"
| "exception_value EX_ILLEGAL_ARGUMENT = - 3"
| "exception_value EX_NULL_POINTER = - 4"
| "exception_value EX_ILLEGAL_STATE = - 5"
| "exception_value EX_NETWORK_MAIN_THREAD = - 6"
| "exception_value EX_UNSUPPORTED_OPERATION = - 7"
| "exception_value EX_SERVICE_SPECIFIC = - 8"
| "exception_value EX_PARCELABLE = - 9"
| "exception_value EX_TRANSACTION_FAILED = - 129"

text \<open>
  \<open>ndk::ScopedAStatus\<close>: an exception code and a message. \<open>ok()\<close> carries
  \<open>EX_NONE\<close>; \<open>isOk\<close> tests for it.
\<close>

datatype ScopedAStatus =
  AStatus (getExceptionCode: binder_exception_t) (getMessage: string)

definition ok :: ScopedAStatus where
  "ok = AStatus EX_NONE []"

definition fromExceptionCodeWithMessage :: "binder_exception_t \<Rightarrow> string \<Rightarrow> ScopedAStatus" where
  "fromExceptionCodeWithMessage e m = AStatus e m"

definition isOk :: "ScopedAStatus \<Rightarrow> bool" where
  "isOk s = (getExceptionCode s = EX_NONE)"

text \<open>The return code of the engine context and of the effect base classes.\<close>

datatype RetCode =
    SUCCESS
  | ERROR_ILLEGAL_PARAMETER
  | ERROR_THREAD
  | ERROR_NULL_POINTER
  | ERROR_ALIGNMENT
  | ERROR_BLOCK_SIZE_EXCEED
  | ERROR_EFFECT_LIB_ERROR

text \<open>\<open>IEffect::Status\<close>, the result of one processing call: three 32-bit integers.\<close>

record Status =
  status :: int
  fmqConsumed :: int
  fmqProduced :: int

text \<open>The life cycle state of an effect instance.\<close>

datatype State = INIT | IDLE | PROCESSING

subsection \<open>Parameters\<close>

text \<open>
  \<open>Parameter::Common\<close>: only the path \<open>input.base.format.pcm\<close> (and the same for
  \<open>output\<close>, written \<open>output'\<close> here) is read by this file.
\<close>

datatype PcmType =
    DEFAULT
  | UINT_8_BIT
  | INT_16_BIT
  | INT_32_BIT
  | FIXED_Q_8_24
  | FLOAT_32_BIT
  | INT_24_BIT

record AudioFormatDescription =
  pcm :: PcmType

record AudioConfigBase =
  format :: AudioFormatDescription

record AudioConfig =
  base :: AudioConfigBase

record Common =
  input :: AudioConfig
  output' :: AudioConfig

text \<open>
  The tagged union \<open>DynamicsProcessing\<close>. \<open>Tag\<close> is the enumeration of its tags,
  \<open>make_t x\<close> is \<open>DynamicsProcessing::make<DynamicsProcessing::t>(x)\<close>. The payload
  types are declared outside this file and are type parameters here: \<open>'ea\<close> the engine
  architecture, \<open>'cc\<close> the per-channel configurations (pre-equaliser, post-equaliser
  and compressor stages), \<open>'eqb\<close> the equaliser bands, \<open>'mbcb\<close> the compressor bands,
  \<open>'lim\<close> the limiter configurations, \<open>'ig\<close> the input gains, \<open>'vx\<close> the vendor
  extension.
\<close>

datatype Tag =
    vendorExtension
  | engineArchitecture
  | preEq
  | postEq
  | preEqBand
  | postEqBand
  | mbc
  | mbcBand
  | limiter
  | inputGain

datatype ('ea, 'cc, 'eqb, 'mbcb, 'lim, 'ig, 'vx) DynamicsProcessing =
    make_vendorExtension 'vx
  | make_engineArchitecture 'ea
  | make_preEq 'cc
  | make_postEq 'cc
  | make_preEqBand 'eqb
  | make_postEqBand 'eqb
  | make_mbc 'cc
  | make_mbcBand 'mbcb
  | make_limiter 'lim
  | make_inputGain 'ig

fun getTag :: "('ea, 'cc, 'eqb, 'mbcb, 'lim, 'ig, 'vx) DynamicsProcessing \<Rightarrow> Tag" where
  "getTag (make_vendorExtension _) = vendorExtension"
| "getTag (make_engineArchitecture _) = engineArchitecture"
| "getTag (make_preEq _) = preEq"
| "getTag (make_postEq _) = postEq"
| "getTag (make_preEqBand _) = preEqBand"
| "getTag (make_postEqBand _) = postEqBand"
| "getTag (make_mbc _) = mbc"
| "getTag (make_mbcBand _) = mbcBand"
| "getTag (make_limiter _) = limiter"
| "getTag (make_inputGain _) = inputGain"

text \<open>
  \<open>Parameter::Specific\<close>: the union over all effect types. This file only looks for
  the \<open>dynamicsProcessing\<close> tag; every other tag is \<open>otherSpecific\<close>, with its payload.
\<close>

datatype ('ea, 'cc, 'eqb, 'mbcb, 'lim, 'ig, 'vx, 'os) Specific =
    dynamicsProcessing "('ea, 'cc, 'eqb, 'mbcb, 'lim, 'ig, 'vx) DynamicsProcessing"
  | otherSpecific 'os

text \<open>
  \<open>DynamicsProcessing::Id\<close> and \<open>Parameter::Id\<close>: what a read asks for. Again every
  tag of \<open>Parameter::Id\<close> other than \<open>dynamicsProcessingTag\<close> is \<open>otherIdTag\<close>.
\<close>

datatype 'vx DynamicsProcessing_Id =
    vendorExtensionTag 'vx
  | commonTag Tag

datatype ('vx, 'oi) Id =
    dynamicsProcessingTag "'vx DynamicsProcessing_Id"
  | otherIdTag 'oi

subsection \<open>The engine context\<close>

text \<open>
  \<open>DynamicsProcessingContext\<close> is a class of the engine library. An object of it is
  referred to by a reference of type \<open>'h\<close> (the \<open>shared_ptr\<close>); what the objects hold,
  together with the sample buffers, is the external state \<open>'w\<close>. The record below is the
  interface this file uses: each method takes the reference and the external state;
  the methods that change the object return the new external state. \<open>newContext\<close> is the
  constructor, called with the depth of the status queue and the common parameters.
\<close>

record ('h, 'w, 'ea, 'cc, 'eqb, 'mbcb, 'lim, 'ig, 'buf, 'ret) DynamicsProcessingContext =
  newContext :: "int \<Rightarrow> Common \<Rightarrow> 'w \<Rightarrow> 'h \<times> 'w"
  enable :: "'h \<Rightarrow> 'w \<Rightarrow> 'w"
  disable :: "'h \<Rightarrow> 'w \<Rightarrow> 'w"
  resetBuffer :: "'h \<Rightarrow> 'w \<Rightarrow> 'w"
  dupeFmq :: "'h \<Rightarrow> 'ret \<Rightarrow> 'w \<Rightarrow> 'ret"
  lvmProcess :: "'h \<Rightarrow> 'buf \<Rightarrow> 'buf \<Rightarrow> int \<Rightarrow> 'w \<Rightarrow> Status \<times> 'w"
  setEngineArchitecture :: "'h \<Rightarrow> 'ea \<Rightarrow> 'w \<Rightarrow> RetCode \<times> 'w"
  setPreEq :: "'h \<Rightarrow> 'cc \<Rightarrow> 'w \<Rightarrow> RetCode \<times> 'w"
  setPostEq :: "'h \<Rightarrow> 'cc \<Rightarrow> 'w \<Rightarrow> RetCode \<times> 'w"
  setPreEqBand :: "'h \<Rightarrow> 'eqb \<Rightarrow> 'w \<Rightarrow> RetCode \<times> 'w"
  setPostEqBand :: "'h \<Rightarrow> 'eqb \<Rightarrow> 'w \<Rightarrow> RetCode \<times> 'w"
  setMbc :: "'h \<Rightarrow> 'cc \<Rightarrow> 'w \<Rightarrow> RetCode \<times> 'w"
  setMbcBand :: "'h \<Rightarrow> 'mbcb \<Rightarrow> 'w \<Rightarrow> RetCode \<times> 'w"
  setLimiter :: "'h \<Rightarrow> 'lim \<Rightarrow> 'w \<Rightarrow> RetCode \<times> 'w"
  setInputGain :: "'h \<Rightarrow> 'ig \<Rightarrow> 'w \<Rightarrow> RetCode \<times> 'w"
  getEngineArchitecture :: "'h \<Rightarrow> 'w \<Rightarrow> 'ea"
  getPreEq :: "'h \<Rightarrow> 'w \<Rightarrow> 'cc"
  getPostEq :: "'h \<Rightarrow> 'w \<Rightarrow> 'cc"
  getPreEqBand :: "'h \<Rightarrow> 'w \<Rightarrow> 'eqb"
  getPostEqBand :: "'h \<Rightarrow> 'w \<Rightarrow> 'eqb"
  getMbc :: "'h \<Rightarrow> 'w \<Rightarrow> 'cc"
  getMbcBand :: "'h \<Rightarrow> 'w \<Rightarrow> 'mbcb"
  getLimiter :: "'h \<Rightarrow> 'w \<Rightarrow> 'lim"
  getInputGain :: "'h \<Rightarrow> 'w \<Rightarrow> 'ig"

text \<open>
  What \<open>open\<close> uses of the base classes of the effect class, none of it defined in
  this file: \<open>setParameterCommon\<close>, which hands the common parameters to the context
  of the instance (the context is its second argument here), \<open>createThread\<close>, which
  starts the worker on a context under a name, and \<open>getEffectName\<close>, which gives that
  name. Like the methods of the context they act on the external state.
\<close>

record ('h, 'w) EffectImpl =
  setParameterCommon :: "Common \<Rightarrow> 'h option \<Rightarrow> 'w \<Rightarrow> ScopedAStatus \<times> 'w"
  createThread :: "'h \<Rightarrow> string \<Rightarrow> 'w \<Rightarrow> RetCode \<times> 'w"
  getEffectName :: string

subsection \<open>The effect instance\<close>

text \<open>
  The two members of \<open>DynamicsProcessingImpl\<close> that this file reads and writes: the
  life cycle state and the context (\<open>None\<close> is the null \<open>shared_ptr\<close>).
\<close>

record 'h DynamicsProcessingImpl =
  mState :: State
  mContext :: "'h option"

text \<open>
  \<open>effectProcessImpl\<close>, the processing method run by the worker: the status for a null
  context is prepared first; with a context the call goes to the engine.
\<close>

definition effectProcessImpl ::
  "('h, 'w, 'ea, 'cc, 'eqb, 'mbcb, 'lim, 'ig, 'buf, 'ret) DynamicsProcessingContext \<Rightarrow>
   'buf \<Rightarrow> 'buf \<Rightarrow> int \<Rightarrow> 'h DynamicsProcessingImpl \<Rightarrow> 'w \<Rightarrow> Status \<times> 'w" where
  "effectProcessImpl ctx inb outb samples impl w =
     (let st = \<lparr>status = exception_value EX_NULL_POINTER, fmqConsumed = 0, fmqProduced = 0\<rparr>
      in case mContext impl of
           None \<Rightarrow> (st, w)
         | Some h \<Rightarrow> lvmProcess ctx h inb outb samples w)"

text \<open>
  \<open>commandImpl\<close>: the commands of the host. \<open>VENDOR_COMMAND k\<close> stands for the
  vendor commands, which take the default case.
\<close>

datatype CommandId = START | STOP | RESET | VENDOR_COMMAND nat

definition commandImpl ::
  "('h, 'w, 'ea, 'cc, 'eqb, 'mbcb, 'lim, 'ig, 'buf, 'ret) DynamicsProcessingContext \<Rightarrow>
   CommandId \<Rightarrow> 'h DynamicsProcessingImpl \<Rightarrow> 'w \<Rightarrow> ScopedAStatus \<times> 'w" where
  "commandImpl ctx command impl w =
     (case mContext impl of
        None \<Rightarrow> (fromExceptionCodeWithMessage EX_NULL_POINTER ''nullContext'', w)
      | Some h \<Rightarrow>
          (case command of
             START \<Rightarrow> (ok, enable ctx h w)
           | STOP \<Rightarrow> (ok, disable ctx h w)
           | RESET \<Rightarrow> (ok, resetBuffer ctx h (disable ctx h w))
           | VENDOR_COMMAND _ \<Rightarrow>
               (fromExceptionCodeWithMessage EX_ILLEGAL_ARGUMENT ''commandIdNotSupported'',
                w)))"

text \<open>
  \<open>setParameterSpecific\<close>. The two guards come first; then the switch over the tag
  of the payload, each case calling one setter of the context and turning a return
  code other than \<open>SUCCESS\<close> into \<open>EX_ILLEGAL_ARGUMENT\<close>. The external state is the
  one the setter leaves, whatever it returns.
\<close>

definition setParameterSpecific ::
  "('h, 'w, 'ea, 'cc, 'eqb, 'mbcb, 'lim, 'ig, 'buf, 'ret) DynamicsProcessingContext \<Rightarrow>
   ('ea, 'cc, 'eqb, 'mbcb, 'lim, 'ig, 'vx, 'os) Specific \<Rightarrow>
   'h DynamicsProcessingImpl \<Rightarrow> 'w \<Rightarrow> ScopedAStatus \<times> 'w" where
  "setParameterSpecific ctx specific impl w =
     (case specific of
        otherSpecific _ \<Rightarrow>
          (fromExceptionCodeWithMessage EX_ILLEGAL_ARGUMENT ''EffectNotSupported'', w)
      | dynamicsProcessing param \<Rightarrow>
          (case mContext impl of
             None \<Rightarrow> (fromExceptionCodeWithMessage EX_NULL_POINTER ''nullContext'', w)
           | Some h \<Rightarrow>
               (case param of
                  make_engineArchitecture x \<Rightarrow>
                    (case setEngineArchitecture ctx h x w of (rc, w') \<Rightarrow>
                       (if rc \<noteq> SUCCESS
                        then fromExceptionCodeWithMessage EX_ILLEGAL_ARGUMENT
                               ''setEngineArchitectureFailed''
                        else ok, w'))
                | make_preEq x \<Rightarrow>
                    (case setPreEq ctx h x w of (rc, w') \<Rightarrow>
                       (if rc \<noteq> SUCCESS
                        then fromExceptionCodeWithMessage EX_ILLEGAL_ARGUMENT ''setPreEqFailed''
                        else ok, w'))
                | make_postEq x \<Rightarrow>
                    (case setPostEq ctx h x w of (rc, w') \<Rightarrow>
                       (if rc \<noteq> SUCCESS
                        then fromExceptionCodeWithMessage EX_ILLEGAL_ARGUMENT ''setPostEqFailed''
                        else ok, w'))
                | make_preEqBand x \<Rightarrow>
                    (case setPreEqBand ctx h x w of (rc, w') \<Rightarrow>
                       (if rc \<noteq> SUCCESS
                        then fromExceptionCodeWithMessage EX_ILLEGAL_ARGUMENT ''setPreEqBandFailed''
                        else ok, w'))
                | make_postEqBand x \<Rightarrow>
                    (case setPostEqBand ctx h x w of (rc, w') \<Rightarrow>
                       (if rc \<noteq> SUCCESS
                        then fromExceptionCodeWithMessage EX_ILLEGAL_ARGUMENT ''setPostEqBandFailed''
                        else ok, w'))
                | make_mbc x \<Rightarrow>
                    (case setMbc ctx h x w of (rc, w') \<Rightarrow>
                       (if rc \<noteq> SUCCESS
                        then fromExceptionCodeWithMessage EX_ILLEGAL_ARGUMENT ''setMbcFailed''
                        else ok, w'))
                | make_mbcBand x \<Rightarrow>
                    (case setMbcBand ctx h x w of (rc, w') \<Rightarrow>
                       (if rc \<noteq> SUCCESS
                        then fromExceptionCodeWithMessage EX_ILLEGAL_ARGUMENT ''setMbcBandFailed''
                        else ok, w'))
                | make_limiter x \<Rightarrow>
                    (case setLimiter ctx h x w of (rc, w') \<Rightarrow>
                       (if rc \<noteq> SUCCESS
                        then fromExceptionCodeWithMessage EX_ILLEGAL_ARGUMENT ''setLimiterFailed''
                        else ok, w'))
                | make_inputGain x \<Rightarrow>
                    (case setInputGain ctx h x w of (rc, w') \<Rightarrow>
                       (if rc \<noteq> SUCCESS
                        then fromExceptionCodeWithMessage EX_ILLEGAL_ARGUMENT ''setInputGainFailed''
                        else ok, w'))
                | make_vendorExtension _ \<Rightarrow>
                    (fromExceptionCodeWithMessage EX_ILLEGAL_ARGUMENT
                       ''DPVendorExtensionTagNotSupported'', w))))"

text \<open>
  The output parameter \<open>Parameter::Specific* specific\<close> is a pointer: \<open>None\<close> is the
  null pointer, \<open>Some s\<close> points to the value \<open>s\<close>. \<open>specific->set<dynamicsProcessing>(v)\<close>
  overwrites the value pointed to; through a null pointer it has no defined behaviour,
  which is the result \<open>None\<close> of the functions below.
\<close>

definition set_dynamicsProcessing ::
  "('ea, 'cc, 'eqb, 'mbcb, 'lim, 'ig, 'vx, 'os) Specific option \<Rightarrow>
   ('ea, 'cc, 'eqb, 'mbcb, 'lim, 'ig, 'vx) DynamicsProcessing \<Rightarrow>
   (ScopedAStatus \<times> ('ea, 'cc, 'eqb, 'mbcb, 'lim, 'ig, 'vx, 'os) Specific option) option" where
  "set_dynamicsProcessing specific v =
     (case specific of
        None \<Rightarrow> None
      | Some _ \<Rightarrow> Some (ok, Some (dynamicsProcessing v)))"

text \<open>
  \<open>getParameterDynamicsProcessing\<close>: the result is the status and what \<open>specific\<close>
  points to afterwards.
\<close>

definition getParameterDynamicsProcessing ::
  "('h, 'w, 'ea, 'cc, 'eqb, 'mbcb, 'lim, 'ig, 'buf, 'ret) DynamicsProcessingContext \<Rightarrow>
   Tag \<Rightarrow> ('ea, 'cc, 'eqb, 'mbcb, 'lim, 'ig, 'vx, 'os) Specific option \<Rightarrow>
   'h DynamicsProcessingImpl \<Rightarrow> 'w \<Rightarrow>
   (ScopedAStatus \<times> ('ea, 'cc, 'eqb, 'mbcb, 'lim, 'ig, 'vx, 'os) Specific option) option" where
  "getParameterDynamicsProcessing ctx tag specific impl w =
     (case mContext impl of
        None \<Rightarrow> Some (fromExceptionCodeWithMessage EX_NULL_POINTER ''nullContext'', specific)
      | Some h \<Rightarrow>
          (case tag of
             engineArchitecture \<Rightarrow>
               set_dynamicsProcessing specific
                 (make_engineArchitecture (getEngineArchitecture ctx h w))
           | preEq \<Rightarrow>
               set_dynamicsProcessing specific (make_preEq (getPreEq ctx h w))
           | postEq \<Rightarrow>
               set_dynamicsProcessing specific (make_postEq (getPostEq ctx h w))
           | preEqBand \<Rightarrow>
               set_dynamicsProcessing specific (make_preEqBand (getPreEqBand ctx h w))
           | postEqBand \<Rightarrow>
               set_dynamicsProcessing specific (make_postEqBand (getPostEqBand ctx h w))
           | mbc \<Rightarrow>
               set_dynamicsProcessing specific (make_mbc (getMbc ctx h w))
           | mbcBand \<Rightarrow>
               set_dynamicsProcessing specific (make_mbcBand (getMbcBand ctx h w))
           | limiter \<Rightarrow>
               set_dynamicsProcessing specific (make_limiter (getLimiter ctx h w))
           | inputGain \<Rightarrow>
               set_dynamicsProcessing specific (make_inputGain (getInputGain ctx h w))
           | vendorExtension \<Rightarrow>
               Some (fromExceptionCodeWithMessage EX_ILLEGAL_ARGUMENT
                       ''DPVendorExtensionTagInWrongId'', specific)))"

text \<open>\<open>getParameterSpecific\<close>: the null check, the check of the outer tag, the dispatch.\<close>

definition getParameterSpecific ::
  "('h, 'w, 'ea, 'cc, 'eqb, 'mbcb, 'lim, 'ig, 'buf, 'ret) DynamicsProcessingContext \<Rightarrow>
   ('vi, 'oi) Id \<Rightarrow> ('ea, 'cc, 'eqb, 'mbcb, 'lim, 'ig, 'vx, 'os) Specific option \<Rightarrow>
   'h DynamicsProcessingImpl \<Rightarrow> 'w \<Rightarrow>
   (ScopedAStatus \<times> ('ea, 'cc, 'eqb, 'mbcb, 'lim, 'ig, 'vx, 'os) Specific option) option" where
  "getParameterSpecific ctx ident specific impl w =
     (if specific = None
      then Some (fromExceptionCodeWithMessage EX_NULL_POINTER ''nullPtr'', specific)
      else
        (case ident of
           otherIdTag _ \<Rightarrow>
             Some (fromExceptionCodeWithMessage EX_ILLEGAL_ARGUMENT ''wrongIdTag'', specific)
         | dynamicsProcessingTag dpId \<Rightarrow>
             (case dpId of
                commonTag t \<Rightarrow> getParameterDynamicsProcessing ctx t specific impl w
              | vendorExtensionTag _ \<Rightarrow>
                  Some (fromExceptionCodeWithMessage EX_ILLEGAL_ARGUMENT
                          ''DPVendorExtensionIdNotSupported'', specific))))"

text \<open>
  \<open>createContext\<close> returns the context of the instance, constructing one (with a status
  queue of depth 1) only when there is none. \<open>releaseContext\<close> disables the context,
  resets its buffer and drops the reference.
\<close>

definition createContext ::
  "('h, 'w, 'ea, 'cc, 'eqb, 'mbcb, 'lim, 'ig, 'buf, 'ret) DynamicsProcessingContext \<Rightarrow>
   Common \<Rightarrow> 'h DynamicsProcessingImpl \<Rightarrow> 'w \<Rightarrow>
   'h option \<times> 'h DynamicsProcessingImpl \<times> 'w" where
  "createContext ctx common impl w =
     (case mContext impl of
        Some h \<Rightarrow> (Some h, impl, w)
      | None \<Rightarrow>
          (case newContext ctx 1 common w of (h, w') \<Rightarrow>
             (Some h, impl\<lparr>mContext := Some h\<rparr>, w')))"

definition releaseContext ::
  "('h, 'w, 'ea, 'cc, 'eqb, 'mbcb, 'lim, 'ig, 'buf, 'ret) DynamicsProcessingContext \<Rightarrow>
   'h DynamicsProcessingImpl \<Rightarrow> 'w \<Rightarrow> RetCode \<times> 'h DynamicsProcessingImpl \<times> 'w" where
  "releaseContext ctx impl w =
     (case mContext impl of
        Some h \<Rightarrow> (SUCCESS, impl\<lparr>mContext := None\<rparr>, resetBuffer ctx h (disable ctx h w))
      | None \<Rightarrow> (SUCCESS, impl, w))"

text \<open>
  \<open>open\<close> (written \<open>open'\<close>). The local \<open>context\<close> and the member \<open>mContext\<close> are
  the same reference. \<open>ret\<close> stands for what the pointer \<open>ret\<close> points to; the context
  fills it in \<open>dupeFmq\<close>. The result is the status, what \<open>ret\<close> points to, the instance and
  the external state; \<open>None\<close> would be the call \<open>mContext->getEngineArchitecture()\<close>
  through a null \<open>mContext\<close>. The specific parameter that is applied is the given
  one or, without one, the engine architecture read back from the new context.
\<close>

definition kEffectName :: string where
  "kEffectName = ''DynamicsProcessing''"

definition open' ::
  "('h, 'w, 'ea, 'cc, 'eqb, 'mbcb, 'lim, 'ig, 'buf, 'ret) DynamicsProcessingContext \<Rightarrow>
   ('h, 'w) EffectImpl \<Rightarrow>
   Common \<Rightarrow> ('ea, 'cc, 'eqb, 'mbcb, 'lim, 'ig, 'vx, 'os) Specific option \<Rightarrow> 'ret \<Rightarrow>
   'h DynamicsProcessingImpl \<Rightarrow> 'w \<Rightarrow>
   (ScopedAStatus \<times> 'ret \<times> 'h DynamicsProcessingImpl \<times> 'w) option" where
  "open' ctx eff common specific ret impl w =
     (if pcm (format (base (input common))) \<noteq> pcm (format (base (output' common))) \<or>
         pcm (format (base (input common))) \<noteq> FLOAT_32_BIT
      then Some (fromExceptionCodeWithMessage EX_ILLEGAL_ARGUMENT ''dataMustBe32BitsFloat'',
                 ret, impl, w)
      else if mState impl \<noteq> INIT then Some (ok, ret, impl, w)
      else
        (case createContext ctx common impl w of (context, impl1, w1) \<Rightarrow>
           (case context of
              None \<Rightarrow>
                Some (fromExceptionCodeWithMessage EX_NULL_POINTER ''createContextFailed'',
                      ret, impl1, w1)
            | Some cx \<Rightarrow>
                (case setParameterCommon eff common (mContext impl1) w1 of (st, w2) \<Rightarrow>
                   if \<not> isOk st
                   then Some (fromExceptionCodeWithMessage (getExceptionCode st)
                                ''setCommParamErr'', ret, impl1, w2)
                   else
                     (case
                        (case specific of
                           Some sp \<Rightarrow> Some (sp, ''setSpecParamErr'')
                         | None \<Rightarrow>
                             (case mContext impl1 of
                                None \<Rightarrow> None
                              | Some h \<Rightarrow>
                                  Some (dynamicsProcessing
                                          (make_engineArchitecture
                                             (getEngineArchitecture ctx h w2)),
                                        ''setDefaultEngineErr'')))
                      of
                        None \<Rightarrow> None
                      | Some (sp, msg) \<Rightarrow>
                          (case setParameterSpecific ctx sp impl1 w2 of (st', w3) \<Rightarrow>
                             if \<not> isOk st'
                             then Some (fromExceptionCodeWithMessage (getExceptionCode st')
                                          msg, ret, impl1, w3)
                             else
                               (let impl2 = impl1\<lparr>mState := IDLE\<rparr>;
                                    ret' = dupeFmq ctx cx ret w3
                                in case createThread eff cx (getEffectName eff) w3 of
                                     (rc, w4) \<Rightarrow>
                                       if rc \<noteq> SUCCESS
                                       then Some (fromExceptionCodeWithMessage
                                                    EX_UNSUPPORTED_OPERATION
                                                    ''FailedToCreateWorker'',
                                                  ret', impl2, w4)
                                       else Some (ok, ret', impl2, w4))))))))"

subsection \<open>The entry points of the library\<close>

text \<open>
  The descriptor of the effect. The two identifiers \<open>kDynamicsProcessingTypeUUID\<close> and
  \<open>kDynamicsProcessingImplUUID\<close> are constants declared outside this file; they are
  parameters \<open>kTypeUUID\<close> and \<open>kImplUUID\<close> of the definitions here, of a type \<open>'u\<close> of
  identifiers. The fields are those the source initialises; \<open>Identity_type\<close>,
  \<open>Common_id\<close>, \<open>Descriptor_common\<close> and the three fields of \<open>Flags\<close> carry the name
  of their structure because the plain names are taken.
\<close>

datatype Flags_Type = INSERT | AUXILIARY | REPLACE | PRE_PROC | POST_PROC

datatype Flags_Insert = ANY | FIRST | LAST | EXCLUSIVE

datatype Flags_Volume = NONE | CTRL | IND | MONITOR

record Flags =
  Flags_type :: Flags_Type
  Flags_insert :: Flags_Insert
  Flags_volume :: Flags_Volume

record 'u Descriptor_Identity =
  Identity_type :: 'u
  uuid :: 'u
  proxy :: "'u option"

record 'u Descriptor_Common =
  Common_id :: "'u Descriptor_Identity"
  flags :: Flags
  name :: string
  implementor :: string

record DynamicsProcessing_Capability =
  minCutOffFreq :: real
  maxCutOffFreq :: real

datatype Capability =
  Capability_dynamicsProcessing DynamicsProcessing_Capability

record 'u Descriptor =
  Descriptor_common :: "'u Descriptor_Common"
  capability :: Capability

definition kCapability :: DynamicsProcessing_Capability where
  "kCapability = \<lparr>minCutOffFreq = 220, maxCutOffFreq = 20000\<rparr>"

definition kDescriptor :: "'u \<Rightarrow> 'u \<Rightarrow> 'u Descriptor" where
  "kDescriptor kTypeUUID kImplUUID =
     \<lparr>Descriptor_common =
        \<lparr>Common_id = \<lparr>Identity_type = kTypeUUID, uuid = kImplUUID, proxy = None\<rparr>,
                flags = \<lparr>Flags_type = INSERT, Flags_insert = LAST, Flags_volume = CTRL\<rparr>,
                name = kEffectName,
                implementor = ''The Android Open Source Project''\<rparr>,
      capability = Capability_dynamicsProcessing kCapability\<rparr>"

text \<open>
  \<open>getDescriptor\<close> checks its output pointer before it writes the descriptor.
\<close>

definition getDescriptor ::
  "'u \<Rightarrow> 'u \<Rightarrow> 'u Descriptor option \<Rightarrow> ScopedAStatus \<times> 'u Descriptor option" where
  "getDescriptor kTypeUUID kImplUUID aidl_return =
     (if aidl_return = None
      then (fromExceptionCodeWithMessage EX_ILLEGAL_ARGUMENT ''Parameter:nullptr'', aidl_return)
      else (ok, Some (kDescriptor kTypeUUID kImplUUID)))"

text \<open>
  \<open>createEffect\<close>. \<open>in_impl_uuid\<close> is a pointer to an identifier (\<open>None\<close> when null).
  \<open>instanceSpp\<close> is a pointer to a \<open>shared_ptr\<close>: \<open>None\<close> when null, otherwise
  \<open>Some p\<close> with \<open>p\<close> the reference it points to (\<open>None\<close> for an empty
  \<open>shared_ptr\<close>). The instances that exist are the list \<open>instances\<close>, a reference to
  an instance is its index there, and \<open>made\<close> is the instance that
  \<open>SharedRefBase::make<DynamicsProcessingImpl>()\<close> constructs. The result is the
  exception code, what \<open>instanceSpp\<close> points to, and the instances.
\<close>

definition createEffect ::
  "'u \<Rightarrow> 'i \<Rightarrow> 'u option \<Rightarrow> nat option option \<Rightarrow> 'i list \<Rightarrow>
   binder_exception_t \<times> nat option option \<times> 'i list" where
  "createEffect kImplUUID made in_impl_uuid instanceSpp instances =
     (if (case in_impl_uuid of None \<Rightarrow> True | Some u \<Rightarrow> u \<noteq> kImplUUID)
      then (EX_ILLEGAL_ARGUMENT, instanceSpp, instances)
      else if instanceSpp \<noteq> None
      then (EX_NONE, Some (Some (length instances)), instances @ [made])
      else (EX_ILLEGAL_ARGUMENT, instanceSpp, instances))"

text \<open>
  \<open>queryEffect\<close>. \<open>_aidl_return\<close> is a pointer to a descriptor and is written without
  a check: the result is \<open>None\<close> when the write goes through a null pointer, otherwise
  the exception code and what \<open>_aidl_return\<close> points to.
\<close>

definition queryEffect ::
  "'u \<Rightarrow> 'u \<Rightarrow> 'u option \<Rightarrow> 'u Descriptor option \<Rightarrow>
   (binder_exception_t \<times> 'u Descriptor option) option" where
  "queryEffect kTypeUUID kImplUUID in_impl_uuid aidl_return =
     (if (case in_impl_uuid of None \<Rightarrow> True | Some u \<Rightarrow> u \<noteq> kImplUUID)
      then Some (EX_ILLEGAL_ARGUMENT, aidl_return)
      else
        (case aidl_return of
           None \<Rightarrow> None
         | Some _ \<Rightarrow> Some (EX_NONE, Some (kDescriptor kTypeUUID kImplUUID))))"

subsection \<open>What forwarding to a setter means\<close>

text \<open>
  A call \<open>res\<close> of the binding layer forwards to a call \<open>r\<close> of a setter of the context
  when it leaves the external state the setter leaves, is ok when the setter returns
  \<open>SUCCESS\<close>, and carries \<open>EX_ILLEGAL_ARGUMENT\<close> when the setter returns anything else.
\<close>

definition forwarded :: "RetCode \<times> 'w \<Rightarrow> ScopedAStatus \<times> 'w \<Rightarrow> bool" where
  "forwarded r res =
     (snd res = snd r \<and>
      (fst r = SUCCESS \<longrightarrow> fst res = ok) \<and>
      (fst r \<noteq> SUCCESS \<longrightarrow> getExceptionCode (fst res) = EX_ILLEGAL_ARGUMENT))"

subsection \<open>A small engine to run the definitions on\<close>

text \<open>
  The theorems below hold for every engine. To evaluate them on concrete inputs, this
  engine (and the base class \<open>log_effect\<close> with it) keeps as its external state the list of the calls it has received, each as a
  number; every payload is a natural number, and a setter accepts the payloads below 10.
  The reference to the context it constructs is the length of the list at that time.
\<close>

definition log_engine ::
  "(nat, nat list, nat, nat, nat, nat, nat, nat, nat, nat) DynamicsProcessingContext" where
  "log_engine =
     \<lparr>newContext = (\<lambda>depth c w. (length w, w @ [nat depth])),
      enable = (\<lambda>h w. w @ [2]),
      disable = (\<lambda>h w. w @ [3]),
      resetBuffer = (\<lambda>h w. w @ [4]),
      dupeFmq = (\<lambda>h r w. length w),
      lvmProcess = (\<lambda>h i o' n w.
         (\<lparr>status = 0, fmqConsumed = n, fmqProduced = n\<rparr>, w @ [5])),
      setEngineArchitecture = (\<lambda>h x w.
         (if x < 10 then SUCCESS else ERROR_ILLEGAL_PARAMETER, w @ [100 + x])),
      setPreEq = (\<lambda>h x w.
         (if x < 10 then SUCCESS else ERROR_ILLEGAL_PARAMETER, w @ [200 + x])),
      setPostEq = (\<lambda>h x w.
         (if x < 10 then SUCCESS else ERROR_ILLEGAL_PARAMETER, w @ [300 + x])),
      setPreEqBand = (\<lambda>h x w.
         (if x < 10 then SUCCESS else ERROR_ILLEGAL_PARAMETER, w @ [400 + x])),
      setPostEqBand = (\<lambda>h x w.
         (if x < 10 then SUCCESS else ERROR_ILLEGAL_PARAMETER, w @ [500 + x])),
      setMbc = (\<lambda>h x w.
         (if x < 10 then SUCCESS else ERROR_ILLEGAL_PARAMETER, w @ [600 + x])),
      setMbcBand = (\<lambda>h x w.
         (if x < 10 then SUCCESS else ERROR_ILLEGAL_PARAMETER, w @ [700 + x])),
      setLimiter = (\<lambda>h x w.
         (if x < 10 then SUCCESS else ERROR_ILLEGAL_PARAMETER, w @ [800 + x])),
      setInputGain = (\<lambda>h x w.
         (if x < 10 then SUCCESS else ERROR_ILLEGAL_PARAMETER, w @ [900 + x])),
      getEngineArchitecture = (\<lambda>h w. 1),
      getPreEq = (\<lambda>h w. 2),
      getPostEq = (\<lambda>h w. 3),
      getPreEqBand = (\<lambda>h w. 4),
      getPostEqBand = (\<lambda>h w. 5),
      getMbc = (\<lambda>h w. 6),
      getMbcBand = (\<lambda>h w. 7),
      getLimiter = (\<lambda>h w. 8),
      getInputGain = (\<lambda>h w. 9)\<rparr>"

definition log_effect :: "(nat, nat list) EffectImpl" where
  "log_effect =
     \<lparr>setParameterCommon = (\<lambda>c h w. (ok, w @ [6])),
      createThread = (\<lambda>h n w. (SUCCESS, w @ [7])),
      getEffectName = kEffectName\<rparr>"

definition float_common :: Common where
  "float_common =
     \<lparr>input = \<lparr>base = \<lparr>format = \<lparr>pcm = FLOAT_32_BIT\<rparr>\<rparr>\<rparr>,
      output' = \<lparr>base = \<lparr>format = \<lparr>pcm = FLOAT_32_BIT\<rparr>\<rparr>\<rparr>\<rparr>"

definition int16_common :: Common where
  "int16_common =
     \<lparr>input = \<lparr>base = \<lparr>format = \<lparr>pcm = INT_16_BIT\<rparr>\<rparr>\<rparr>,
      output' = \<lparr>base = \<lparr>format = \<lparr>pcm = INT_16_BIT\<rparr>\<rparr>\<rparr>\<rparr>"

type_synonym nat_specific = "(nat, nat, nat, nat, nat, nat, nat, nat) Specific"

definition fresh_impl :: "nat DynamicsProcessingImpl" where
  "fresh_impl = \<lparr>mState = INIT, mContext = None\<rparr>"

definition opened_impl :: "nat DynamicsProcessingImpl" where
  "opened_impl = \<lparr>mState = IDLE, mContext = Some 0\<rparr>"

section \<open>Properties\<close>

subsection \<open>Status values\<close>

lemma isOk_ok: "isOk ok"
  by (simp add: isOk_def ok_def)

lemma isOk_fromExceptionCodeWithMessage:
  "isOk (fromExceptionCodeWithMessage e m) = (e = EX_NONE)"
  by (simp add: isOk_def fromExceptionCodeWithMessage_def)

lemma getExceptionCode_fromExceptionCodeWithMessage:
  "getExceptionCode (fromExceptionCodeWithMessage e m) = e"
  by (simp add: fromExceptionCodeWithMessage_def)

lemma not_isOk_propagated:
  "\<not> isOk st \<Longrightarrow> \<not> isOk (fromExceptionCodeWithMessage (getExceptionCode st) m)"
  by (simp add: isOk_def fromExceptionCodeWithMessage_def)

lemma forwardedI:
  "forwarded r (case r of (rc, w') \<Rightarrow>
      (if rc \<noteq> SUCCESS then fromExceptionCodeWithMessage EX_ILLEGAL_ARGUMENT m else ok, w'))"
  by (cases r) (simp add: forwarded_def getExceptionCode_fromExceptionCodeWithMessage)

lemma forwarded_isOk:
  "forwarded r res \<Longrightarrow> isOk (fst res) = (fst r = SUCCESS)"
  by (auto simp add: forwarded_def isOk_def ok_def)

subsection \<open>Processing\<close>

text \<open>
  Claim C1. With a context, \<open>effectProcessImpl\<close> returns exactly what the engine call
  \<open>lvmProcess\<close> on that context returns, status and external state, for the same
  buffers and sample count. Without a context it returns the status
  \<open>{EX_NULL_POINTER, 0, 0}\<close> and the external state is untouched: the engine has not
  been called.
\<close>

theorem effectProcessImpl_delegates:
  "(mContext impl = Some h \<longrightarrow>
      effectProcessImpl ctx inb outb samples impl w = lvmProcess ctx h inb outb samples w) \<and>
   (mContext impl = None \<longrightarrow>
      effectProcessImpl ctx inb outb samples impl w =
        (\<lparr>status = exception_value EX_NULL_POINTER, fmqConsumed = 0, fmqProduced = 0\<rparr>, w))"
  by (simp add: effectProcessImpl_def)

theorem effectProcessImpl_delegates_witness:
  "effectProcessImpl log_engine 0 0 5 opened_impl [1] =
     (\<lparr>status = 0, fmqConsumed = 5, fmqProduced = 5\<rparr>, [1, 5]) \<and>
   effectProcessImpl log_engine 0 0 5 fresh_impl [1] =
     (\<lparr>status = - 4, fmqConsumed = 0, fmqProduced = 0\<rparr>, [1])"
  using
    effectProcessImpl_delegates
      [where impl = opened_impl and h = 0 and ctx = log_engine and inb = 0 and outb = 0
         and samples = 5 and w = "[1]"]
    effectProcessImpl_delegates
      [where impl = fresh_impl and h = 0 and ctx = log_engine and inb = 0 and outb = 0
         and samples = 5 and w = "[1]"]
  by (simp add: log_engine_def opened_impl_def fresh_impl_def)

text \<open>The reset command disables the context and then resets its buffer.\<close>

lemma commandImpl_RESET:
  "mContext impl = Some h \<Longrightarrow>
   commandImpl ctx RESET impl w = (ok, resetBuffer ctx h (disable ctx h w))"
  by (simp add: commandImpl_def)

subsection \<open>Writing parameters\<close>

text \<open>
  Claim C2. \<open>setParameterSpecific\<close> rejects every argument whose outer tag is not
  \<open>dynamicsProcessing\<close> with \<open>EX_ILLEGAL_ARGUMENT\<close>; with that tag and no context it
  fails with \<open>EX_NULL_POINTER\<close>; with a context it forwards the payload of each of the
  nine inner tags to the setter of the same name (ok exactly when the setter returns
  \<open>SUCCESS\<close>, \<open>EX_ILLEGAL_ARGUMENT\<close> otherwise, the external state being the one the
  setter leaves), and it rejects the \<open>vendorExtension\<close> tag with \<open>EX_ILLEGAL_ARGUMENT\<close>
  whatever the payload, calling no setter.
\<close>

theorem setParameterSpecific_forwards:
  "getExceptionCode (fst (setParameterSpecific ctx (otherSpecific y) impl w)) =
     EX_ILLEGAL_ARGUMENT \<and>
   snd (setParameterSpecific ctx (otherSpecific y) impl w) = w \<and>
   (mContext impl = None \<longrightarrow>
      getExceptionCode (fst (setParameterSpecific ctx (dynamicsProcessing p) impl w)) =
        EX_NULL_POINTER \<and>
      snd (setParameterSpecific ctx (dynamicsProcessing p) impl w) = w) \<and>
   (mContext impl = Some h \<longrightarrow>
      forwarded (setEngineArchitecture ctx h ea w)
        (setParameterSpecific ctx (dynamicsProcessing (make_engineArchitecture ea)) impl w) \<and>
      forwarded (setPreEq ctx h cc w)
        (setParameterSpecific ctx (dynamicsProcessing (make_preEq cc)) impl w) \<and>
      forwarded (setPostEq ctx h cc w)
        (setParameterSpecific ctx (dynamicsProcessing (make_postEq cc)) impl w) \<and>
      forwarded (setPreEqBand ctx h eqb w)
        (setParameterSpecific ctx (dynamicsProcessing (make_preEqBand eqb)) impl w) \<and>
      forwarded (setPostEqBand ctx h eqb w)
        (setParameterSpecific ctx (dynamicsProcessing (make_postEqBand eqb)) impl w) \<and>
      forwarded (setMbc ctx h cc w)
        (setParameterSpecific ctx (dynamicsProcessing (make_mbc cc)) impl w) \<and>
      forwarded (setMbcBand ctx h mbcb w)
        (setParameterSpecific ctx (dynamicsProcessing (make_mbcBand mbcb)) impl w) \<and>
      forwarded (setLimiter ctx h lc w)
        (setParameterSpecific ctx (dynamicsProcessing (make_limiter lc)) impl w) \<and>
      forwarded (setInputGain ctx h ig w)
        (setParameterSpecific ctx (dynamicsProcessing (make_inputGain ig)) impl w) \<and>
      getExceptionCode
        (fst (setParameterSpecific ctx (dynamicsProcessing (make_vendorExtension vx)) impl w)) =
        EX_ILLEGAL_ARGUMENT \<and>
      snd (setParameterSpecific ctx (dynamicsProcessing (make_vendorExtension vx)) impl w) = w)"
  by (simp add: setParameterSpecific_def forwardedI
        getExceptionCode_fromExceptionCodeWithMessage)

theorem setParameterSpecific_forwards_witness:
  "setParameterSpecific log_engine (dynamicsProcessing (make_preEq 3) :: nat_specific)
     opened_impl [] = (ok, [203]) \<and>
   setParameterSpecific log_engine (dynamicsProcessing (make_limiter 30) :: nat_specific)
     opened_impl [] =
     (fromExceptionCodeWithMessage EX_ILLEGAL_ARGUMENT ''setLimiterFailed'', [830]) \<and>
   setParameterSpecific log_engine (dynamicsProcessing (make_vendorExtension 3) :: nat_specific)
     opened_impl [] =
     (fromExceptionCodeWithMessage EX_ILLEGAL_ARGUMENT ''DPVendorExtensionTagNotSupported'',
      []) \<and>
   setParameterSpecific log_engine (dynamicsProcessing (make_preEq 3) :: nat_specific)
     fresh_impl [] = (fromExceptionCodeWithMessage EX_NULL_POINTER ''nullContext'', []) \<and>
   setParameterSpecific log_engine (otherSpecific 3 :: nat_specific) opened_impl [] =
     (fromExceptionCodeWithMessage EX_ILLEGAL_ARGUMENT ''EffectNotSupported'', [])"
  using
    setParameterSpecific_forwards
      [where ctx = log_engine and impl = opened_impl and h = 0 and w = "[]" and y = "3::nat"
         and p = "make_preEq 3" and ea = 3 and cc = 3 and eqb = 3 and mbcb = 3 and lc = 30
         and ig = 3 and vx = "3::nat"]
    setParameterSpecific_forwards
      [where ctx = log_engine and impl = fresh_impl and h = 0 and w = "[]" and y = "3::nat"
         and p = "make_preEq 3" and ea = 3 and cc = 3 and eqb = 3 and mbcb = 3 and lc = 30
         and ig = 3 and vx = "3::nat"]
  by (simp add: setParameterSpecific_def log_engine_def opened_impl_def fresh_impl_def)

subsection \<open>Reading parameters\<close>

text \<open>
  Claim C3. With a context, \<open>getParameterDynamicsProcessing\<close> for each of the nine
  supported tags overwrites what \<open>specific\<close> points to with the value of the getter of
  the same name, under the same inner tag and under the outer tag
  \<open>dynamicsProcessing\<close>, and returns ok; for the tag \<open>vendorExtension\<close> it returns
  \<open>EX_ILLEGAL_ARGUMENT\<close> and what \<open>specific\<close> points to stays as it was.
\<close>

theorem getParameterDynamicsProcessing_reads:
  "mContext impl = Some h \<longrightarrow>
     getParameterDynamicsProcessing ctx engineArchitecture (Some s) impl w =
       Some (ok, Some (dynamicsProcessing
                         (make_engineArchitecture (getEngineArchitecture ctx h w)))) \<and>
     getParameterDynamicsProcessing ctx preEq (Some s) impl w =
       Some (ok, Some (dynamicsProcessing (make_preEq (getPreEq ctx h w)))) \<and>
     getParameterDynamicsProcessing ctx postEq (Some s) impl w =
       Some (ok, Some (dynamicsProcessing (make_postEq (getPostEq ctx h w)))) \<and>
     getParameterDynamicsProcessing ctx preEqBand (Some s) impl w =
       Some (ok, Some (dynamicsProcessing (make_preEqBand (getPreEqBand ctx h w)))) \<and>
     getParameterDynamicsProcessing ctx postEqBand (Some s) impl w =
       Some (ok, Some (dynamicsProcessing (make_postEqBand (getPostEqBand ctx h w)))) \<and>
     getParameterDynamicsProcessing ctx mbc (Some s) impl w =
       Some (ok, Some (dynamicsProcessing (make_mbc (getMbc ctx h w)))) \<and>
     getParameterDynamicsProcessing ctx mbcBand (Some s) impl w =
       Some (ok, Some (dynamicsProcessing (make_mbcBand (getMbcBand ctx h w)))) \<and>
     getParameterDynamicsProcessing ctx limiter (Some s) impl w =
       Some (ok, Some (dynamicsProcessing (make_limiter (getLimiter ctx h w)))) \<and>
     getParameterDynamicsProcessing ctx inputGain (Some s) impl w =
       Some (ok, Some (dynamicsProcessing (make_inputGain (getInputGain ctx h w)))) \<and>
     (\<exists>st. getParameterDynamicsProcessing ctx vendorExtension (Some s) impl w =
             Some (st, Some s) \<and>
           getExceptionCode st = EX_ILLEGAL_ARGUMENT)"
  by (simp add: getParameterDynamicsProcessing_def set_dynamicsProcessing_def
        getExceptionCode_fromExceptionCodeWithMessage)

theorem getParameterDynamicsProcessing_reads_witness:
  "getParameterDynamicsProcessing log_engine mbcBand (Some (otherSpecific 0 :: nat_specific))
     opened_impl [] = Some (ok, Some (dynamicsProcessing (make_mbcBand 7))) \<and>
   getParameterDynamicsProcessing log_engine limiter
     (Some (dynamicsProcessing (make_preEq 0) :: nat_specific)) opened_impl [] =
     Some (ok, Some (dynamicsProcessing (make_limiter 8))) \<and>
   getParameterDynamicsProcessing log_engine vendorExtension
     (Some (otherSpecific 0 :: nat_specific)) opened_impl [] =
     Some (fromExceptionCodeWithMessage EX_ILLEGAL_ARGUMENT ''DPVendorExtensionTagInWrongId'',
           Some (otherSpecific 0))"
  using
    getParameterDynamicsProcessing_reads
      [where ctx = log_engine and impl = opened_impl and h = 0 and w = "[]"
         and s = "otherSpecific 0 :: nat_specific"]
    getParameterDynamicsProcessing_reads
      [where ctx = log_engine and impl = opened_impl and h = 0 and w = "[]"
         and s = "dynamicsProcessing (make_preEq 0) :: nat_specific"]
  by (simp add: getParameterDynamicsProcessing_def set_dynamicsProcessing_def log_engine_def
        opened_impl_def)

text \<open>The value written for a supported tag carries that tag.\<close>

lemma getParameterDynamicsProcessing_tag:
  "mContext impl = Some h \<Longrightarrow> tag \<noteq> vendorExtension \<Longrightarrow>
   \<exists>v. getParameterDynamicsProcessing ctx tag (Some s) impl w =
         Some (ok, Some (dynamicsProcessing v)) \<and> getTag v = tag"
  by (cases tag)
     (simp_all add: getParameterDynamicsProcessing_def set_dynamicsProcessing_def)

text \<open>
  \<open>getParameterSpecific\<close> never writes through a null pointer: it always returns.
\<close>

lemma getParameterSpecific_returns:
  "getParameterSpecific ctx i specific impl w \<noteq> None"
  by (cases specific; cases i)
     (auto simp add: getParameterSpecific_def getParameterDynamicsProcessing_def
        set_dynamicsProcessing_def
        split: DynamicsProcessing_Id.splits option.splits Tag.splits)

text \<open>
  Claim C7. \<open>getParameterSpecific\<close> fails with \<open>EX_NULL_POINTER\<close> when the output
  pointer is null; otherwise with \<open>EX_ILLEGAL_ARGUMENT\<close> when the tag of the id is not
  \<open>dynamicsProcessingTag\<close>, and with \<open>EX_ILLEGAL_ARGUMENT\<close> when the id inside carries
  \<open>vendorExtensionTag\<close>, in each case writing nothing; an id that carries a
  \<open>commonTag\<close>, and no other, is handed on to \<open>getParameterDynamicsProcessing\<close>.
\<close>

theorem getParameterSpecific_dispatch:
  "(\<exists>st. getParameterSpecific ctx i None impl w = Some (st, None) \<and>
         getExceptionCode st = EX_NULL_POINTER) \<and>
   (\<exists>st. getParameterSpecific ctx (otherIdTag oi) (Some s) impl w = Some (st, Some s) \<and>
         getExceptionCode st = EX_ILLEGAL_ARGUMENT) \<and>
   (\<exists>st. getParameterSpecific ctx (dynamicsProcessingTag (vendorExtensionTag vx)) (Some s)
           impl w = Some (st, Some s) \<and>
         getExceptionCode st = EX_ILLEGAL_ARGUMENT) \<and>
   getParameterSpecific ctx (dynamicsProcessingTag (commonTag t)) (Some s) impl w =
     getParameterDynamicsProcessing ctx t (Some s) impl w"
  by (simp add: getParameterSpecific_def getExceptionCode_fromExceptionCodeWithMessage)

theorem getParameterSpecific_dispatch_witness:
  "getParameterSpecific log_engine (dynamicsProcessingTag (commonTag preEq) :: (nat, nat) Id)
     (None :: nat_specific option) opened_impl [] =
     Some (fromExceptionCodeWithMessage EX_NULL_POINTER ''nullPtr'', None) \<and>
   getParameterSpecific log_engine (otherIdTag 1 :: (nat, nat) Id)
     (Some (otherSpecific 0 :: nat_specific)) opened_impl [] =
     Some (fromExceptionCodeWithMessage EX_ILLEGAL_ARGUMENT ''wrongIdTag'',
           Some (otherSpecific 0)) \<and>
   getParameterSpecific log_engine (dynamicsProcessingTag (vendorExtensionTag 2) :: (nat, nat) Id)
     (Some (otherSpecific 0 :: nat_specific)) opened_impl [] =
     Some (fromExceptionCodeWithMessage EX_ILLEGAL_ARGUMENT ''DPVendorExtensionIdNotSupported'',
           Some (otherSpecific 0)) \<and>
   getParameterSpecific log_engine (dynamicsProcessingTag (commonTag preEq) :: (nat, nat) Id)
     (Some (otherSpecific 0 :: nat_specific)) opened_impl [] =
     Some (ok, Some (dynamicsProcessing (make_preEq 2)))"
  using
    getParameterSpecific_dispatch
      [where ctx = log_engine and impl = opened_impl and w = "[]"
         and i = "dynamicsProcessingTag (commonTag preEq) :: (nat, nat) Id"
         and oi = "1::nat" and vx = "2::nat" and t = preEq
         and s = "otherSpecific 0 :: nat_specific"]
  by (simp add: getParameterSpecific_def getParameterDynamicsProcessing_def
        set_dynamicsProcessing_def log_engine_def opened_impl_def)

subsection \<open>The context of an instance\<close>

lemma createContext_result:
  "\<exists>h w1. createContext ctx cmn impl w = (Some h, impl\<lparr>mContext := Some h\<rparr>, w1)"
  by (cases "mContext impl") (auto simp add: createContext_def split: prod.splits)

text \<open>
  Claim C10. When the instance has a context, \<open>createContext\<close> returns that context and
  changes neither the instance nor the external state: no context is constructed. Only
  when there is none does it construct one, from the common parameters given, and store
  it. Hence a second call, with any common parameters, returns the context of the first
  and changes nothing. \<open>releaseContext\<close> returns \<open>SUCCESS\<close> in every state, with or
  without a context.
\<close>

theorem createContext_idempotent:
  "(mContext impl = Some h \<longrightarrow> createContext ctx cmn impl w = (Some h, impl, w)) \<and>
   (mContext impl = None \<longrightarrow>
      createContext ctx cmn impl w =
        (Some (fst (newContext ctx 1 cmn w)),
         impl\<lparr>mContext := Some (fst (newContext ctx 1 cmn w))\<rparr>,
         snd (newContext ctx 1 cmn w))) \<and>
   (case createContext ctx cmn impl w of (cx, impl1, w1) \<Rightarrow>
      cx \<noteq> None \<and> mContext impl1 = cx \<and>
      createContext ctx cmn' impl1 w1 = (cx, impl1, w1)) \<and>
   fst (releaseContext ctx impl w) = SUCCESS"
  by (auto simp add: createContext_def releaseContext_def split: option.splits prod.splits)

theorem createContext_idempotent_witness:
  "createContext log_engine float_common opened_impl [1] = (Some 0, opened_impl, [1]) \<and>
   createContext log_engine float_common fresh_impl [] =
     (Some 0, \<lparr>mState = INIT, mContext = Some 0\<rparr>, [1]) \<and>
   createContext log_engine int16_common \<lparr>mState = INIT, mContext = Some 0\<rparr> [1] =
     (Some 0, \<lparr>mState = INIT, mContext = Some 0\<rparr>, [1]) \<and>
   fst (releaseContext log_engine opened_impl [1]) = SUCCESS \<and>
   fst (releaseContext log_engine fresh_impl []) = SUCCESS"
  using
    createContext_idempotent
      [where ctx = log_engine and impl = opened_impl and h = 0 and w = "[1]"
         and cmn = float_common and cmn' = int16_common]
    createContext_idempotent
      [where ctx = log_engine and impl = fresh_impl and h = 0 and w = "[]"
         and cmn = float_common and cmn' = int16_common]
  by (simp add: createContext_def releaseContext_def log_engine_def opened_impl_def
        fresh_impl_def)

subsection \<open>Opening an instance\<close>

text \<open>\<open>open\<close> always returns: the context it reads is the one it has just obtained.\<close>

lemma open'_returns: "open' ctx eff cmn specific ret impl w \<noteq> None"
proof -
  obtain h w1 where
    c: "createContext ctx cmn impl w = (Some h, impl\<lparr>mContext := Some h\<rparr>, w1)"
    using createContext_result [of ctx cmn impl w] by auto
  show ?thesis
    by (cases specific) (simp_all add: open'_def c Let_def split: prod.splits)
qed

text \<open>
  From \<open>INIT\<close>, the state is \<open>IDLE\<close> after \<open>open\<close> only if the common and the
  specific parameters were applied with success, whatever \<open>open\<close> returns.
\<close>

lemma open'_state_change_after_parameters:
  assumes "mState impl = INIT"
    and "open' ctx eff cmn specific ret impl w = Some (st, ret', impl', w')"
    and "mState impl' = IDLE"
  shows "case createContext ctx cmn impl w of (cx, impl1, w1) \<Rightarrow>
           case setParameterCommon eff cmn (mContext impl1) w1 of (stc, w2) \<Rightarrow>
             isOk stc \<and>
             (\<exists>h. cx = Some h \<and>
                  isOk (fst (setParameterSpecific ctx
                               (case specific of
                                  Some sp \<Rightarrow> sp
                                | None \<Rightarrow>
                                    dynamicsProcessing
                                      (make_engineArchitecture
                                         (getEngineArchitecture ctx h w2)))
                               impl1 w2)))"
proof -
  obtain h w1 where
    c: "createContext ctx cmn impl w = (Some h, impl\<lparr>mContext := Some h\<rparr>, w1)"
    using createContext_result [of ctx cmn impl w] by auto
  from assms show ?thesis
    by (cases specific)
       (auto simp add: open'_def c Let_def split: prod.splits if_splits)
qed

text \<open>
  Claim C8. When the PCM type of the input differs from that of the output, or is not
  \<open>FLOAT_32_BIT\<close>, \<open>open\<close> returns \<open>EX_ILLEGAL_ARGUMENT\<close> and nothing has changed: the
  instance (state and context), the external state and what \<open>ret\<close> points to are as
  they were, whatever the state of the instance.
\<close>

theorem open'_rejects_format:
  "pcm (format (base (input cmn))) \<noteq> pcm (format (base (output' cmn))) \<or>
   pcm (format (base (input cmn))) \<noteq> FLOAT_32_BIT \<Longrightarrow>
   \<exists>st. open' ctx eff cmn specific ret impl w = Some (st, ret, impl, w) \<and>
        getExceptionCode st = EX_ILLEGAL_ARGUMENT"
  by (auto simp add: open'_def getExceptionCode_fromExceptionCodeWithMessage)

theorem open'_rejects_format_witness:
  "pcm (format (base (input int16_common))) \<noteq> FLOAT_32_BIT \<and>
   open' log_engine log_effect int16_common (None :: nat_specific option) 0 fresh_impl [] =
     Some (fromExceptionCodeWithMessage EX_ILLEGAL_ARGUMENT ''dataMustBe32BitsFloat'',
           0, fresh_impl, []) \<and>
   open' log_engine log_effect int16_common (None :: nat_specific option) 0 opened_impl [1] =
     Some (fromExceptionCodeWithMessage EX_ILLEGAL_ARGUMENT ''dataMustBe32BitsFloat'',
           0, opened_impl, [1])"
  using
    open'_rejects_format
      [where cmn = int16_common and ctx = log_engine and eff = log_effect
         and specific = "None :: nat_specific option" and ret = 0 and impl = fresh_impl
         and w = "[]"]
    open'_rejects_format
      [where cmn = int16_common and ctx = log_engine and eff = log_effect
         and specific = "None :: nat_specific option" and ret = 0 and impl = opened_impl
         and w = "[1]"]
  by (simp add: open'_def int16_common_def)

text \<open>
  Claim C9. With input and output both \<open>FLOAT_32_BIT\<close>, \<open>open\<close> on an instance whose
  state is not \<open>INIT\<close> returns ok at once: the instance, the external state (the context
  and its parameters) and what \<open>ret\<close> points to are unchanged.
\<close>

theorem open'_again_is_noop:
  "pcm (format (base (input cmn))) = FLOAT_32_BIT \<Longrightarrow>
   pcm (format (base (output' cmn))) = FLOAT_32_BIT \<Longrightarrow>
   mState impl \<noteq> INIT \<Longrightarrow>
   open' ctx eff cmn specific ret impl w = Some (ok, ret, impl, w)"
  by (simp add: open'_def)

theorem open'_again_is_noop_witness:
  "pcm (format (base (input float_common))) = FLOAT_32_BIT \<and>
   pcm (format (base (output' float_common))) = FLOAT_32_BIT \<and>
   mState opened_impl \<noteq> INIT \<and>
   open' log_engine log_effect float_common
     (Some (dynamicsProcessing (make_preEq 3)) :: nat_specific option) 0 opened_impl [1] =
     Some (ok, 0, opened_impl, [1])"
  using
    open'_again_is_noop
      [where cmn = float_common and ctx = log_engine and eff = log_effect
         and specific = "Some (dynamicsProcessing (make_preEq 3)) :: nat_specific option"
         and ret = 0 and impl = opened_impl and w = "[1]"]
  by (simp add: float_common_def opened_impl_def)

text \<open>
  Claim C6. If \<open>open\<close> is called in state \<open>INIT\<close> with input and output both
  \<open>FLOAT_32_BIT\<close> and returns ok, then: the instance has a context afterwards and its
  state is \<open>IDLE\<close>; on that context, while the state was still \<open>INIT\<close>, the common
  parameters were applied with success and after them the specific parameter (the given
  one, or without one the engine architecture read from the context), also with success;
  only then did the state change, the queues get copied into \<open>ret\<close> and the worker
  start. And \<open>releaseContext\<close> on an instance with a context disables that context,
  then resets its buffer, and leaves the instance without a context.
\<close>

theorem open'_INIT_to_IDLE:
  "(mState impl = INIT \<and>
    pcm (format (base (input cmn))) = FLOAT_32_BIT \<and>
    pcm (format (base (output' cmn))) = FLOAT_32_BIT \<and>
    open' ctx eff cmn specific ret impl w = Some (st, ret', impl', w') \<and> isOk st \<longrightarrow>
    (case createContext ctx cmn impl w of (cx, impl1, w1) \<Rightarrow>
       case setParameterCommon eff cmn (mContext impl1) w1 of (stc, w2) \<Rightarrow>
         \<exists>h. cx = Some h \<and> mContext impl1 = Some h \<and> mState impl1 = INIT \<and> isOk stc \<and>
           (case setParameterSpecific ctx
                   (case specific of
                      Some sp \<Rightarrow> sp
                    | None \<Rightarrow>
                        dynamicsProcessing
                          (make_engineArchitecture (getEngineArchitecture ctx h w2)))
                   impl1 w2 of (sts, w3) \<Rightarrow>
              isOk sts \<and> impl' = impl1\<lparr>mState := IDLE\<rparr> \<and>
              mState impl' = IDLE \<and> mContext impl' = Some h \<and>
              ret' = dupeFmq ctx h ret w3 \<and>
              createThread eff h (getEffectName eff) w3 = (SUCCESS, w')))) \<and>
   (mContext impl_r = Some h_r \<longrightarrow>
      releaseContext ctx impl_r v =
        (SUCCESS, impl_r\<lparr>mContext := None\<rparr>, resetBuffer ctx h_r (disable ctx h_r v)))"
proof (intro conjI impI)
  assume a: "mState impl = INIT \<and>
    pcm (format (base (input cmn))) = FLOAT_32_BIT \<and>
    pcm (format (base (output' cmn))) = FLOAT_32_BIT \<and>
    open' ctx eff cmn specific ret impl w = Some (st, ret', impl', w') \<and> isOk st"
  obtain h w1 where
    c: "createContext ctx cmn impl w = (Some h, impl\<lparr>mContext := Some h\<rparr>, w1)"
    using createContext_result [of ctx cmn impl w] by auto
  from a show "case createContext ctx cmn impl w of (cx, impl1, w1) \<Rightarrow>
       case setParameterCommon eff cmn (mContext impl1) w1 of (stc, w2) \<Rightarrow>
         \<exists>h. cx = Some h \<and> mContext impl1 = Some h \<and> mState impl1 = INIT \<and> isOk stc \<and>
           (case setParameterSpecific ctx
                   (case specific of
                      Some sp \<Rightarrow> sp
                    | None \<Rightarrow>
                        dynamicsProcessing
                          (make_engineArchitecture (getEngineArchitecture ctx h w2)))
                   impl1 w2 of (sts, w3) \<Rightarrow>
              isOk sts \<and> impl' = impl1\<lparr>mState := IDLE\<rparr> \<and>
              mState impl' = IDLE \<and> mContext impl' = Some h \<and>
              ret' = dupeFmq ctx h ret w3 \<and>
              createThread eff h (getEffectName eff) w3 = (SUCCESS, w'))"
    by (cases specific)
       (auto simp add: open'_def c Let_def isOk_fromExceptionCodeWithMessage
          dest: not_isOk_propagated split: prod.splits if_splits)
next
  assume "mContext impl_r = Some h_r"
  then show "releaseContext ctx impl_r v =
        (SUCCESS, impl_r\<lparr>mContext := None\<rparr>, resetBuffer ctx h_r (disable ctx h_r v))"
    by (simp add: releaseContext_def)
qed

theorem open'_INIT_to_IDLE_witness:
  "mState fresh_impl = INIT \<and>
   pcm (format (base (input float_common))) = FLOAT_32_BIT \<and>
   pcm (format (base (output' float_common))) = FLOAT_32_BIT \<and>
   open' log_engine log_effect float_common (None :: nat_specific option) 0 fresh_impl [] =
     Some (ok, 3, opened_impl, [1, 6, 101, 7]) \<and>
   isOk ok \<and>
   createContext log_engine float_common fresh_impl [] =
     (Some 0, \<lparr>mState = INIT, mContext = Some 0\<rparr>, [1]) \<and>
   setParameterCommon log_effect float_common (Some 0) [1] = (ok, [1, 6]) \<and>
   setParameterSpecific log_engine (dynamicsProcessing (make_engineArchitecture 1) :: nat_specific)
     \<lparr>mState = INIT, mContext = Some 0\<rparr> [1, 6] = (ok, [1, 6, 101]) \<and>
   createThread log_effect 0 (getEffectName log_effect) [1, 6, 101] = (SUCCESS, [1, 6, 101, 7]) \<and>
   mContext opened_impl = Some 0 \<and>
   releaseContext log_engine opened_impl [1, 6, 101, 7] =
     (SUCCESS, \<lparr>mState = IDLE, mContext = None\<rparr>, [1, 6, 101, 7, 3, 4])"
  using
    open'_INIT_to_IDLE
      [where impl = fresh_impl and cmn = float_common and ctx = log_engine
         and eff = log_effect and specific = "None :: nat_specific option" and ret = 0
         and w = "[]" and st = ok and ret' = 3 and impl' = opened_impl
         and w' = "[1, 6, 101, 7]" and impl_r = opened_impl and h_r = 0
         and v = "[1, 6, 101, 7]"]
  by (simp add: open'_def createContext_def setParameterSpecific_def releaseContext_def
        log_engine_def log_effect_def float_common_def fresh_impl_def opened_impl_def
        isOk_ok Let_def)

subsection \<open>The entry points of the library\<close>

text \<open>\<open>getDescriptor\<close> refuses a null output pointer.\<close>

lemma getDescriptor_checks_pointer:
  "getExceptionCode (fst (getDescriptor kTypeUUID kImplUUID None)) = EX_ILLEGAL_ARGUMENT \<and>
   getDescriptor kTypeUUID kImplUUID (Some d) = (ok, Some (kDescriptor kTypeUUID kImplUUID))"
  by (simp add: getDescriptor_def getExceptionCode_fromExceptionCodeWithMessage)

text \<open>
  Claim C4. \<open>createEffect\<close> returns \<open>EX_ILLEGAL_ARGUMENT\<close> and creates no instance (the
  instances and what \<open>instanceSpp\<close> points to are unchanged) when the identifier pointer
  is null, or the identifier differs from \<open>kDynamicsProcessingImplUUID\<close>, or
  \<open>instanceSpp\<close> is null. Otherwise it returns \<open>EX_NONE\<close>, there is exactly one more
  instance, the newly made one, and \<open>instanceSpp\<close> points to a reference to it.
\<close>

theorem createEffect_checks:
  "(in_impl_uuid = None \<or> in_impl_uuid \<noteq> Some kImplUUID \<or> instanceSpp = None \<longrightarrow>
      createEffect kImplUUID made in_impl_uuid instanceSpp instances =
        (EX_ILLEGAL_ARGUMENT, instanceSpp, instances)) \<and>
   (in_impl_uuid = Some kImplUUID \<and> instanceSpp \<noteq> None \<longrightarrow>
      createEffect kImplUUID made in_impl_uuid instanceSpp instances =
        (EX_NONE, Some (Some (length instances)), instances @ [made]) \<and>
      (instances @ [made]) ! length instances = made)"
  by (auto simp add: createEffect_def split: option.splits)

theorem createEffect_checks_witness:
  "createEffect (1::nat) fresh_impl (Some 1) (Some None) [opened_impl] =
     (EX_NONE, Some (Some 1), [opened_impl, fresh_impl]) \<and>
   createEffect (1::nat) fresh_impl (Some 2) (Some None) [opened_impl] =
     (EX_ILLEGAL_ARGUMENT, Some None, [opened_impl]) \<and>
   createEffect (1::nat) fresh_impl None (Some None) [opened_impl] =
     (EX_ILLEGAL_ARGUMENT, Some None, [opened_impl]) \<and>
   createEffect (1::nat) fresh_impl (Some 1) None [opened_impl] =
     (EX_ILLEGAL_ARGUMENT, None, [opened_impl])"
  using
    createEffect_checks
      [where kImplUUID = "1::nat" and made = fresh_impl and in_impl_uuid = "Some 1"
         and instanceSpp = "Some None" and instances = "[opened_impl]"]
    createEffect_checks
      [where kImplUUID = "1::nat" and made = fresh_impl and in_impl_uuid = "Some 2"
         and instanceSpp = "Some None" and instances = "[opened_impl]"]
    createEffect_checks
      [where kImplUUID = "1::nat" and made = fresh_impl and in_impl_uuid = "None"
         and instanceSpp = "Some None" and instances = "[opened_impl]"]
    createEffect_checks
      [where kImplUUID = "1::nat" and made = fresh_impl and in_impl_uuid = "Some 1"
         and instanceSpp = "None" and instances = "[opened_impl]"]
  by (simp add: createEffect_def)

text \<open>
  What \<open>queryEffect\<close> does whenever the write can take place, and on every input with
  a wrong identifier: with a null identifier pointer or an identifier other than
  \<open>kDynamicsProcessingImplUUID\<close> it returns \<open>EX_ILLEGAL_ARGUMENT\<close> and writes nothing,
  whatever \<open>_aidl_return\<close> is; with the right identifier and a pointer that is not null
  it writes the constant descriptor and returns \<open>EX_NONE\<close>. The descriptor has the name
  \<open>DynamicsProcessing\<close>, the implementation identifier, and the cut-off range 220 to
  20000 as its capability.
\<close>

lemma queryEffect_checks:
  "queryEffect kTypeUUID kImplUUID in_impl_uuid (Some d) =
     (if in_impl_uuid = Some kImplUUID
      then Some (EX_NONE, Some (kDescriptor kTypeUUID kImplUUID))
      else Some (EX_ILLEGAL_ARGUMENT, Some d)) \<and>
   (in_impl_uuid \<noteq> Some kImplUUID \<longrightarrow>
      queryEffect kTypeUUID kImplUUID in_impl_uuid aidl_return =
        Some (EX_ILLEGAL_ARGUMENT, aidl_return)) \<and>
   name (Descriptor_common (kDescriptor kTypeUUID kImplUUID)) = ''DynamicsProcessing'' \<and>
   uuid (Common_id (Descriptor_common (kDescriptor kTypeUUID kImplUUID))) = kImplUUID \<and>
   capability (kDescriptor kTypeUUID kImplUUID) =
     Capability_dynamicsProcessing \<lparr>minCutOffFreq = 220, maxCutOffFreq = 20000\<rparr>"
  by (auto simp add: queryEffect_def kDescriptor_def kEffectName_def kCapability_def
        split: option.splits)

lemma queryEffect_checks_example:
  "queryEffect (0::nat) 1 (Some 1) (Some (kDescriptor 7 7)) =
     Some (EX_NONE, Some (kDescriptor 0 1)) \<and>
   queryEffect (0::nat) 1 (Some 2) (Some (kDescriptor 7 7)) =
     Some (EX_ILLEGAL_ARGUMENT, Some (kDescriptor 7 7)) \<and>
   queryEffect (0::nat) 1 None None = Some (EX_ILLEGAL_ARGUMENT, None)"
  using
    queryEffect_checks
      [where kTypeUUID = "0::nat" and kImplUUID = 1 and in_impl_uuid = "Some 1"
         and d = "kDescriptor 7 7" and aidl_return = None]
    queryEffect_checks
      [where kTypeUUID = "0::nat" and kImplUUID = 1 and in_impl_uuid = "Some 2"
         and d = "kDescriptor 7 7" and aidl_return = None]
    queryEffect_checks
      [where kTypeUUID = "0::nat" and kImplUUID = 1 and in_impl_uuid = None
         and d = "kDescriptor 7 7" and aidl_return = None]
  by (simp add: queryEffect_def)

text \<open>
  Claim C5. For every input \<open>queryEffect\<close> is to return \<open>EX_ILLEGAL_ARGUMENT\<close> exactly
  when the identifier pointer is null or the identifier differs from
  \<open>kDynamicsProcessingImplUUID\<close>, and otherwise to write the constant descriptor into
  \<open>*_aidl_return\<close> and return \<open>EX_NONE\<close>. The code does not do so on one input: with
  the right identifier and a null \<open>_aidl_return\<close> the assignment
  \<open>*_aidl_return = kDescriptor\<close> goes through the null pointer, so that the call
  returns neither code. The check of the output pointer that is missing here is made by
  the two neighbours of \<open>queryEffect\<close>: on the same kind of input \<open>createEffect\<close>
  (null \<open>instanceSpp\<close>) and \<open>getDescriptor\<close> (null \<open>_aidl_return\<close>) both return
  \<open>EX_ILLEGAL_ARGUMENT\<close>.
\<close>

theorem queryEffect_null_return:
  "queryEffect (0::nat) 1 (Some 1) None = None \<and>
   fst (createEffect (1::nat) fresh_impl (Some 1) None []) = EX_ILLEGAL_ARGUMENT \<and>
   getExceptionCode (fst (getDescriptor (0::nat) 1 None)) = EX_ILLEGAL_ARGUMENT"
  by (simp add: queryEffect_def createEffect_def getDescriptor_def
        fromExceptionCodeWithMessage_def)

end
